theory Spec2Isabelle
  imports Complex_Main
begin

section \<open>Untyped values, errors and outcomes\<close>

text \<open>
  The decoder works on \<^verbatim>\<open>interface{}\<close> values as a generic JSON decoder produces them:
  \<^verbatim>\<open>nil\<close>, \<^verbatim>\<open>bool\<close>, \<^verbatim>\<open>float64\<close>, \<^verbatim>\<open>string\<close>,
  \<^verbatim>\<open>[]interface{}\<close> and \<^verbatim>\<open>map[string]interface{}\<close>. Numbers are carried
  unchanged by the decoder (no arithmetic is done on them), so they are modelled as reals.
  A map is kept as an association list and only ever read through \<open>index_map\<close>.
\<close>

datatype jvalue =
    JNull
  | JBool bool
  | JNumber real
  | JString string
  | JArray "jvalue list"
  | JObject "(string \<times> jvalue) list"

text \<open>
  A run-time panic carries a value: the failed unchecked type assertion
  \<^verbatim>\<open>gi.(map[string]interface{})\<close> on the value asserted, or the fault of a numeric coercion.
\<close>

datatype panic =
    InterfaceConversion jvalue
  | CoercionFault jvalue

text \<open>
  The \<^verbatim>\<open>error\<close> values the decoder builds, one constructor per message of the source,
  with the value the message is formatted from:
  \<^item> \<open>UnmarshalCoordinate c\<close>: \<^verbatim>\<open>"Error unmarshal %v to coordinates"\<close>
  \<^item> \<open>CoordinatesParseError obj\<close>: \<^verbatim>\<open>"ParseErrr: Coordinates parse error, %v"\<close>
  \<^item> \<open>MultiLineParseError obj\<close>: \<^verbatim>\<open>"ParseErrr: MultiLine parse error, %v"\<close>
  \<^item> \<open>MultiPolygonParseError\<close>: \<^verbatim>\<open>"Parse Error: parse multi polygon error"\<close>
  \<^item> \<open>UnknownGeometryType typ\<close>: \<^verbatim>\<open>"ParseError: Unknown geometry type %s"\<close>
  \<^item> \<open>GeometryCollectionParseError\<close>: \<^verbatim>\<open>"ParseError: Error durring parse geometry collection"\<close>
  \<^item> \<open>Recovered e\<close>: \<^verbatim>\<open>fmt.Errorf("%v", e)\<close> of a recovered panic value
\<close>

datatype error =
    UnmarshalCoordinate jvalue
  | CoordinatesParseError jvalue
  | MultiLineParseError jvalue
  | MultiPolygonParseError
  | UnknownGeometryType jvalue
  | GeometryCollectionParseError
  | Recovered panic

text \<open>
  A call of a function of type \<^verbatim>\<open>(T, error)\<close> ends in one of three ways: it returns a
  value and a nil error (\<open>Ok\<close>), it returns no value and an error (\<open>Err\<close>), or it panics and
  the panic unwinds into the caller (\<open>Panic\<close>).
\<close>

datatype 'a result =
    Ok 'a
  | Err error
  | Panic panic

text \<open>The comma-ok type assertion \<^verbatim>\<open>obj.([]interface{})\<close>.\<close>

definition as_slice :: "jvalue \<Rightarrow> jvalue list option" where
  "as_slice obj = (case obj of JArray xs \<Rightarrow> Some xs | _ \<Rightarrow> None)"

text \<open>Indexing a map, \<^verbatim>\<open>g[k]\<close>: a key that is absent gives the nil interface value.\<close>

definition index_map :: "(string \<times> jvalue) list \<Rightarrow> string \<Rightarrow> jvalue" where
  "index_map g k = (case map_of g k of Some v \<Rightarrow> v | None \<Rightarrow> JNull)"

section \<open>Geometry values\<close>

text \<open>
  Modelled from the spec: the geometry variant types and their constructors
  (\<^verbatim>\<open>Coordinate\<close>, \<^verbatim>\<open>Coordinates\<close>, \<^verbatim>\<open>MultiLine\<close>, \<^verbatim>\<open>Point\<close> \<dots>
  \<^verbatim>\<open>GeometryCollection\<close>, \<^verbatim>\<open>NewPoint\<close> \<dots> \<^verbatim>\<open>NewGeometryCollection\<close>) are declared
  in another file of the package. The data model of the spec gives a closed sum of seven
  variants over their coordinate payloads, and constructors that only assign the payload;
  \<^verbatim>\<open>NewGeometryCollection()\<close> is a collection of no geometries.
\<close>

type_synonym Coordinate = "real \<times> real"
type_synonym Coordinates = "Coordinate list"
type_synonym MultiLine = "Coordinates list"

datatype Geometry =
    Point Coordinate
  | LineString Coordinates
  | MultiPoint Coordinates
  | MultiLineString MultiLine
  | Polygon MultiLine
  | MultiPolygon "MultiLine list"
  | GeometryCollection "Geometry list"

text \<open>
  The numeric coercion \<^verbatim>\<open>Coord\<close> is declared in another file of the package as well.
  The decoders take it as a parameter: applied to a value it either yields a number or
  panics.
\<close>

type_synonym coercion = "jvalue \<Rightarrow> panic + real"

text \<open>
  Modelled from the spec: \<^verbatim>\<open>Coord\<close>, the numeric coercion of the coordinate codec, for
  the concrete examples. A JSON number converts to itself; the conversion of any other value
  is a fault.
\<close>

definition Coord_spec :: coercion where
  "Coord_spec v = (case v of JNumber x \<Rightarrow> Inr x | _ \<Rightarrow> Inl (CoercionFault v))"

section \<open>The coordinate codec\<close>

text \<open>
  \<^verbatim>\<open>defer func() { if e := recover(); e != nil { err = fmt.Errorf("%v", e) } }()\<close>:
  a panic of the function body becomes the returned error; the named result \<^verbatim>\<open>coord\<close>
  keeps its zero value, which no caller reads when the error is set.
\<close>

definition recover :: "'a result \<Rightarrow> 'a result" where
  "recover r = (case r of Panic e \<Rightarrow> Err (Recovered e) | _ \<Rightarrow> r)"

text \<open>The body of \<^verbatim>\<open>parseCoordinate\<close>, before the deferred function runs.\<close>

definition parseCoordinate_body :: "coercion \<Rightarrow> jvalue \<Rightarrow> Coordinate result" where
  "parseCoordinate_body Coord c =
     (case as_slice c of
        None \<Rightarrow> Err (UnmarshalCoordinate c)
      | Some coordinate \<Rightarrow>
          if length coordinate \<noteq> 2 then Err (UnmarshalCoordinate c)
          else (case Coord (coordinate ! 0) of
                  Inl e \<Rightarrow> Panic e
                | Inr x \<Rightarrow>
                    (case Coord (coordinate ! 1) of
                       Inl e \<Rightarrow> Panic e
                     | Inr y \<Rightarrow> Ok (x, y))))"

definition parseCoordinate :: "coercion \<Rightarrow> jvalue \<Rightarrow> Coordinate result" where
  "parseCoordinate Coord c = recover (parseCoordinate_body Coord c)"

section \<open>The coordinate list codecs\<close>

text \<open>
  The three decoders of arrays share one loop,
  \<^verbatim>\<open>for i, v := range c { if coords[i], err = parse(v); err != nil { return nil, err } }\<close>,
  over a slice \<^verbatim>\<open>coords\<close> made with the length of \<^verbatim>\<open>c\<close>. The loop is modelled on
  the elements still to visit, the index of the next one and the slice filled so far.
\<close>

fun range_fill :: "('a \<Rightarrow> 'b result) \<Rightarrow> 'a list \<Rightarrow> nat \<Rightarrow> 'b list \<Rightarrow> 'b list result" where
  "range_fill parse [] i coords = Ok coords"
| "range_fill parse (v # vs) i coords =
     (case parse v of
        Ok x \<Rightarrow> range_fill parse vs (Suc i) (coords[i := x])
      | Err err \<Rightarrow> Err err
      | Panic e \<Rightarrow> Panic e)"

definition parseCoordinates :: "coercion \<Rightarrow> jvalue \<Rightarrow> Coordinates result" where
  "parseCoordinates Coord obj =
     (case as_slice obj of
        None \<Rightarrow> Err (CoordinatesParseError obj)
      | Some c \<Rightarrow>
          if length c < 1 then Err (CoordinatesParseError obj)
          else range_fill (parseCoordinate Coord) c 0 (replicate (length c) (0, 0)))"

definition parseMultiLine :: "coercion \<Rightarrow> jvalue \<Rightarrow> MultiLine result" where
  "parseMultiLine Coord obj =
     (case as_slice obj of
        None \<Rightarrow> Err (MultiLineParseError obj)
      | Some c \<Rightarrow>
          if length c < 1 then Err (MultiLineParseError obj)
          else range_fill (parseCoordinates Coord) c 0 (replicate (length c) []))"

section \<open>The shape decoders\<close>

definition parsePoint :: "coercion \<Rightarrow> jvalue \<Rightarrow> Geometry result" where
  "parsePoint Coord obj =
     (case parseCoordinate Coord obj of
        Ok c \<Rightarrow> Ok (Point c)
      | Err err \<Rightarrow> Err err
      | Panic e \<Rightarrow> Panic e)"

definition parseLineString :: "coercion \<Rightarrow> jvalue \<Rightarrow> Geometry result" where
  "parseLineString Coord obj =
     (case parseCoordinates Coord obj of
        Ok cc \<Rightarrow> Ok (LineString cc)
      | Err err \<Rightarrow> Err err
      | Panic e \<Rightarrow> Panic e)"

definition parseMultiPoint :: "coercion \<Rightarrow> jvalue \<Rightarrow> Geometry result" where
  "parseMultiPoint Coord obj =
     (case parseCoordinates Coord obj of
        Ok cc \<Rightarrow> Ok (MultiPoint cc)
      | Err err \<Rightarrow> Err err
      | Panic e \<Rightarrow> Panic e)"

definition parseMultiLineString :: "coercion \<Rightarrow> jvalue \<Rightarrow> Geometry result" where
  "parseMultiLineString Coord obj =
     (case parseMultiLine Coord obj of
        Ok ml \<Rightarrow> Ok (MultiLineString ml)
      | Err err \<Rightarrow> Err err
      | Panic e \<Rightarrow> Panic e)"

definition parsePolygon :: "coercion \<Rightarrow> jvalue \<Rightarrow> Geometry result" where
  "parsePolygon Coord obj =
     (case parseMultiLine Coord obj of
        Ok pl \<Rightarrow> Ok (Polygon pl)
      | Err err \<Rightarrow> Err err
      | Panic e \<Rightarrow> Panic e)"

definition parseMultiPolygon :: "coercion \<Rightarrow> jvalue \<Rightarrow> Geometry result" where
  "parseMultiPolygon Coord obj =
     (case as_slice obj of
        None \<Rightarrow> Err MultiPolygonParseError
      | Some si \<Rightarrow>
          (case range_fill (parseMultiLine Coord) si 0 (replicate (length si) []) of
             Ok ml \<Rightarrow> Ok (MultiPolygon ml)
           | Err err \<Rightarrow> Err err
           | Panic e \<Rightarrow> Panic e))"

section \<open>The geometry decoder\<close>

text \<open>
  The decoder recurses through geometry collections, so its termination rests on the size of
  the value decoded: a field of a map is smaller than the map, an element of an array is
  smaller than the array.
\<close>

lemma size_index_map: "size (index_map g k) < size (JObject g)"
proof (induction g)
  case Nil
  then show ?case by (simp add: index_map_def)
next
  case (Cons kv g)
  then show ?case by (cases kv) (auto simp: index_map_def split: option.splits)
qed

lemma as_slice_Some: "as_slice obj = Some si \<Longrightarrow> obj = JArray si"
  by (cases obj) (simp_all add: as_slice_def)

lemma size_nth_JArray: "i < length si \<Longrightarrow> size (si ! i) < size (JArray si)"
  using size_list_estimation' [of "si ! i" si "size (si ! i)" size] by simp

lemma length_less_size_JArray: "length si < size (JArray si)"
  by (induction si) auto

text \<open>
  The value being decoded gets smaller from call to call; where it stays the same (the entry
  of the loop and its next iteration) the number of steps left in the loop decreases.
\<close>

definition decode_rank ::
  "coercion \<times> jvalue + coercion \<times> jvalue + coercion \<times> jvalue list \<times> nat \<times> Geometry list \<Rightarrow> nat"
where
  "decode_rank x =
     (case x of
        Inl (Coord, gi) \<Rightarrow> size gi
      | Inr (Inl (Coord, obj)) \<Rightarrow> size obj
      | Inr (Inr (Coord, si, i, gs)) \<Rightarrow> size (JArray si))"

definition decode_steps ::
  "coercion \<times> jvalue + coercion \<times> jvalue + coercion \<times> jvalue list \<times> nat \<times> Geometry list \<Rightarrow> nat"
where
  "decode_steps x =
     (case x of
        Inl (Coord, gi) \<Rightarrow> 0
      | Inr (Inl (Coord, obj)) \<Rightarrow> Suc (size obj)
      | Inr (Inr (Coord, si, i, gs)) \<Rightarrow> length si - i)"

text \<open>
  \<^verbatim>\<open>parseGeometry\<close> asserts its argument to be a map without the comma-ok form, so any
  other value panics there. The \<^verbatim>\<open>switch\<close> compares the interface value of the
  \<^verbatim>\<open>"type"\<close> field with the seven string constants in the order of the source.
  \<^verbatim>\<open>parseGeometryCollection\<close> visits \<^verbatim>\<open>si[i]\<close> for \<^verbatim>\<open>i\<close> from \<^verbatim>\<open>0\<close> while
  \<^verbatim>\<open>i < len(si)\<close>, appending each decoded geometry to \<^verbatim>\<open>gc.Geometries\<close>.
\<close>

function parseGeometry :: "coercion \<Rightarrow> jvalue \<Rightarrow> Geometry result"
  and parseGeometryCollection :: "coercion \<Rightarrow> jvalue \<Rightarrow> Geometry result"
  and parseGeometryCollection_loop ::
    "coercion \<Rightarrow> jvalue list \<Rightarrow> nat \<Rightarrow> Geometry list \<Rightarrow> Geometry list result"
where
  "parseGeometry Coord gi =
     (case gi of
        JObject g \<Rightarrow>
          (let coord = index_map g ''coordinates'';
               typ = index_map g ''type''
           in if typ = JString ''Point'' then parsePoint Coord coord
              else if typ = JString ''LineString'' then parseLineString Coord coord
              else if typ = JString ''MultiPoint'' then parseMultiPoint Coord coord
              else if typ = JString ''MultiLineString'' then parseMultiLineString Coord coord
              else if typ = JString ''Polygon'' then parsePolygon Coord coord
              else if typ = JString ''MultiPolygon'' then parseMultiPolygon Coord coord
              else if typ = JString ''GeometryCollection''
                then parseGeometryCollection Coord (index_map g ''geometries'')
              else Err (UnknownGeometryType typ))
      | _ \<Rightarrow> Panic (InterfaceConversion gi))"
| "parseGeometryCollection Coord obj =
     (case as_slice obj of
        None \<Rightarrow> Err GeometryCollectionParseError
      | Some si \<Rightarrow>
          (case parseGeometryCollection_loop Coord si 0 [] of
             Ok geometries \<Rightarrow> Ok (GeometryCollection geometries)
           | Err err \<Rightarrow> Err err
           | Panic e \<Rightarrow> Panic e))"
| "parseGeometryCollection_loop Coord si i geometries =
     (if i < length si then
        (case parseGeometry Coord (si ! i) of
           Ok geometry \<Rightarrow>
             parseGeometryCollection_loop Coord si (Suc i) (geometries @ [geometry])
         | Err err \<Rightarrow> Err err
         | Panic e \<Rightarrow> Panic e)
      else Ok geometries)"
  by pat_completeness auto

termination
proof (relation "measures [decode_rank, decode_steps]", goal_cases)
  case 1
  show ?case by simp
next
  case (2 Coord gi g coord tag)
  then show ?case using size_index_map by (simp add: decode_rank_def)
next
  case (3 Coord obj si)
  then show ?case using length_less_size_JArray [of si]
    by (auto dest!: as_slice_Some simp: decode_rank_def decode_steps_def)
next
  case (4 Coord si i geometries)
  then show ?case using size_nth_JArray [of i si] by (simp add: decode_rank_def)
next
  case (5 Coord si i geometries geometry)
  then show ?case by (simp add: decode_rank_def decode_steps_def)
qed

declare parseGeometry.simps [simp del]
declare parseGeometryCollection.simps [simp del]
declare parseGeometryCollection_loop.simps [simp del]

section \<open>Features and feature collections\<close>

text \<open>
  A slice field is an optional list: \<open>None\<close> is the nil slice, \<open>Some []\<close> an allocated
  slice of length 0. A pointer field that may be nil is an option as well. The raw geometry
  of a feature is an \<^verbatim>\<open>interface{}\<close> value.
\<close>

record CRS =
  Type :: string
  Properties :: "(string \<times> string) list"

record Feature =
  Type :: string
  Id' :: jvalue
  Geometry :: jvalue
  Properties :: "(string \<times> jvalue) list option"
  Bbox :: "real list option"
  Crs :: "CRS option"

definition GetGeometry :: "coercion \<Rightarrow> Feature \<Rightarrow> Geometry result" where
  "GetGeometry Coord t = (let gi = Feature.Geometry t in parseGeometry Coord gi)"

record FeatureCollection =
  Type :: string
  Features :: "Feature list option"
  Bbox :: "real list option"
  Crs :: "CRS option"

text \<open>
  The built-in \<^verbatim>\<open>append(s, f...)\<close>: with nothing to add it returns \<^verbatim>\<open>s\<close> as it is
  (a nil slice stays nil); otherwise the result holds the elements of \<^verbatim>\<open>s\<close> followed by
  those of \<^verbatim>\<open>f\<close>.
\<close>

definition append_slice :: "'a list option \<Rightarrow> 'a list option \<Rightarrow> 'a list option" where
  "append_slice s f =
     (case f of
        None \<Rightarrow> s
      | Some [] \<Rightarrow> s
      | Some (x # xs) \<Rightarrow> Some ((case s of None \<Rightarrow> [] | Some ys \<Rightarrow> ys) @ x # xs))"

text \<open>
  \<^verbatim>\<open>AddFeatures(f ...*Feature)\<close>: the variadic parameter is a slice, nil when the call
  passes no argument. \<^verbatim>\<open>make([]*Feature, 0, 100)\<close> is an allocated slice of length 0.
\<close>

definition AddFeatures :: "FeatureCollection \<Rightarrow> Feature list option \<Rightarrow> FeatureCollection" where
  "AddFeatures t f =
     (let t1 = (if f = None then t\<lparr>Features := Some []\<rparr> else t)
      in t1\<lparr>Features := append_slice (Features t1) f\<rparr>)"

definition NewFeatureCollection :: "Feature list option \<Rightarrow> FeatureCollection" where
  "NewFeatureCollection features =
     \<lparr>FeatureCollection.Type = ''FeatureCollection'', Features = features,
      FeatureCollection.Bbox = None, FeatureCollection.Crs = None\<rparr>"

section \<open>The wire format of geometries\<close>

text \<open>
  Modelled from the spec: the encoding of a geometry. \<^verbatim>\<open>Marshal\<close> hands the value to
  the generic JSON encoder, which follows the field tags of the geometry types, and those
  types are declared in another file of the package. The wire format of the spec gives a
  geometry that is not a collection the fields \<^verbatim>\<open>"type"\<close> (the tag string) and
  \<^verbatim>\<open>"coordinates"\<close> (a nested numeric array whose depth depends on the tag), and a
  collection the fields \<^verbatim>\<open>"type"\<close> and \<^verbatim>\<open>"geometries"\<close> (an array of geometry
  objects). The encoder is given on the untyped value that the decoder receives once the
  text has been read back; numbers pass through the text unchanged.
\<close>

definition encodeCoordinate :: "Coordinate \<Rightarrow> jvalue" where
  "encodeCoordinate c = JArray [JNumber (fst c), JNumber (snd c)]"

definition encodeCoordinates :: "Coordinates \<Rightarrow> jvalue" where
  "encodeCoordinates cc = JArray (map encodeCoordinate cc)"

definition encodeMultiLine :: "MultiLine \<Rightarrow> jvalue" where
  "encodeMultiLine ml = JArray (map encodeCoordinates ml)"

fun encodeGeometry :: "Geometry \<Rightarrow> jvalue" where
  "encodeGeometry (Point c) =
     JObject [(''type'', JString ''Point''), (''coordinates'', encodeCoordinate c)]"
| "encodeGeometry (LineString cc) =
     JObject [(''type'', JString ''LineString''), (''coordinates'', encodeCoordinates cc)]"
| "encodeGeometry (MultiPoint cc) =
     JObject [(''type'', JString ''MultiPoint''), (''coordinates'', encodeCoordinates cc)]"
| "encodeGeometry (MultiLineString ml) =
     JObject [(''type'', JString ''MultiLineString''), (''coordinates'', encodeMultiLine ml)]"
| "encodeGeometry (Polygon pl) =
     JObject [(''type'', JString ''Polygon''), (''coordinates'', encodeMultiLine pl)]"
| "encodeGeometry (MultiPolygon mls) =
     JObject [(''type'', JString ''MultiPolygon''),
       (''coordinates'', JArray (map encodeMultiLine mls))]"
| "encodeGeometry (GeometryCollection gs) =
     JObject [(''type'', JString ''GeometryCollection''),
       (''geometries'', JArray (map encodeGeometry gs))]"

text \<open>
  Modelled from the spec: a valid geometry satisfies the arity rules of its shape at every
  level. \<^verbatim>\<open>Coordinates\<close> and \<^verbatim>\<open>MultiLine\<close> are non-empty sequences; the polygons of
  a multi-polygon and the members of a collection are sequences of valid values.
\<close>

definition valid_Coordinates :: "Coordinates \<Rightarrow> bool" where
  "valid_Coordinates cc \<longleftrightarrow> cc \<noteq> []"

definition valid_MultiLine :: "MultiLine \<Rightarrow> bool" where
  "valid_MultiLine ml \<longleftrightarrow> ml \<noteq> [] \<and> list_all valid_Coordinates ml"

fun valid_Geometry :: "Geometry \<Rightarrow> bool" where
  "valid_Geometry (Point c) = True"
| "valid_Geometry (LineString cc) = valid_Coordinates cc"
| "valid_Geometry (MultiPoint cc) = valid_Coordinates cc"
| "valid_Geometry (MultiLineString ml) = valid_MultiLine ml"
| "valid_Geometry (Polygon pl) = valid_MultiLine pl"
| "valid_Geometry (MultiPolygon mls) = list_all valid_MultiLine mls"
| "valid_Geometry (GeometryCollection gs) = list_all valid_Geometry gs"

section \<open>Properties of the coordinate codec\<close>

lemma as_slice_simps:
  "as_slice (JArray xs) = Some xs"
  "as_slice JNull = None"
  "as_slice (JBool b) = None"
  "as_slice (JNumber r) = None"
  "as_slice (JString s) = None"
  "as_slice (JObject g) = None"
  by (simp_all add: as_slice_def)

lemma recover_simps:
  "recover (Ok x) = Ok x"
  "recover (Err err) = Err err"
  "recover (Panic e) = Err (Recovered e)"
  by (simp_all add: recover_def)

lemma parseCoordinate_pair:
  "parseCoordinate Coord (JArray [a, b]) =
     (case Coord a of
        Inl e \<Rightarrow> Err (Recovered e)
      | Inr x \<Rightarrow> (case Coord b of Inl e \<Rightarrow> Err (Recovered e) | Inr y \<Rightarrow> Ok (x, y)))"
  by (simp add: parseCoordinate_def parseCoordinate_body_def as_slice_simps recover_simps
      split: sum.splits)

lemma length_two_iff: "length xs = 2 \<longleftrightarrow> (\<exists>a b. xs = [a, b])"
  by (cases xs; cases "tl xs") auto

lemma parseCoordinate_other:
  "\<forall>a b. c \<noteq> JArray [a, b] \<Longrightarrow> parseCoordinate Coord c = Err (UnmarshalCoordinate c)"
  by (cases c)
     (auto simp: parseCoordinate_def parseCoordinate_body_def as_slice_simps recover_simps
        length_two_iff)

lemma parseCoordinate_no_panic: "parseCoordinate Coord c \<noteq> Panic e"
  by (simp add: parseCoordinate_def recover_def split: result.splits)

lemma Coord_spec_simps:
  "Coord_spec (JNumber r) = Inr r"
  "Coord_spec JNull = Inl (CoercionFault JNull)"
  "Coord_spec (JBool b) = Inl (CoercionFault (JBool b))"
  "Coord_spec (JString s) = Inl (CoercionFault (JString s))"
  "Coord_spec (JArray xs) = Inl (CoercionFault (JArray xs))"
  "Coord_spec (JObject g) = Inl (CoercionFault (JObject g))"
  by (simp_all add: Coord_spec_def)

text \<open>
  Claim C3. For every untyped value \<open>c\<close>, \<^verbatim>\<open>parseCoordinate\<close> returns the coordinate
  \<open>(x, y)\<close> exactly when \<open>c\<close> is an array of two elements that the numeric coercion turns
  into \<open>x\<close> and \<open>y\<close>. It never panics. Any value that is not an array of two elements gives
  the error formatted from \<open>c\<close> itself; a fault of the coercion on the first element, or on
  the second after the first converted, is recovered and returned as the error formatted
  from that fault.
\<close>

theorem C3_parseCoordinate:
  "(parseCoordinate Coord c = Ok xy \<longleftrightarrow>
      (\<exists>a b. c = JArray [a, b] \<and> Coord a = Inr (fst xy) \<and> Coord b = Inr (snd xy)))
   \<and> parseCoordinate Coord c \<noteq> Panic e
   \<and> ((\<forall>a b. c \<noteq> JArray [a, b]) \<longrightarrow> parseCoordinate Coord c = Err (UnmarshalCoordinate c))
   \<and> (c = JArray [a, b] \<and> Coord a = Inl e \<longrightarrow> parseCoordinate Coord c = Err (Recovered e))
   \<and> (c = JArray [a, b] \<and> Coord a = Inr x \<and> Coord b = Inl e \<longrightarrow>
        parseCoordinate Coord c = Err (Recovered e))"
proof (intro conjI impI)
  show "parseCoordinate Coord c = Ok xy \<longleftrightarrow>
      (\<exists>a b. c = JArray [a, b] \<and> Coord a = Inr (fst xy) \<and> Coord b = Inr (snd xy))"
  proof (cases "\<exists>a b. c = JArray [a, b]")
    case True
    then obtain a b where c: "c = JArray [a, b]" by blast
    show ?thesis
      by (cases xy) (auto simp: c parseCoordinate_pair split: sum.splits)
  next
    case False
    then show ?thesis using parseCoordinate_other [of c Coord] by auto
  qed
next
  show "parseCoordinate Coord c \<noteq> Panic e" by (rule parseCoordinate_no_panic)
next
  assume "\<forall>a b. c \<noteq> JArray [a, b]"
  then show "parseCoordinate Coord c = Err (UnmarshalCoordinate c)"
    by (rule parseCoordinate_other)
next
  assume "c = JArray [a, b] \<and> Coord a = Inl e"
  then show "parseCoordinate Coord c = Err (Recovered e)"
    by (simp add: parseCoordinate_pair)
next
  assume "c = JArray [a, b] \<and> Coord a = Inr x \<and> Coord b = Inl e"
  then show "parseCoordinate Coord c = Err (Recovered e)"
    by (simp add: parseCoordinate_pair)
qed

text \<open>
  The theorem at concrete values, with the coercion of the spec: a pair of numbers, an array
  of three, a bare number, and a non-numeric first and second element.
\<close>

theorem C3_parseCoordinate_witness:
  "parseCoordinate Coord_spec (JArray [JNumber 1.5, JNumber 2.5]) = Ok (1.5, 2.5)
   \<and> parseCoordinate Coord_spec (JArray [JNumber 1, JNumber 2, JNumber 3])
       = Err (UnmarshalCoordinate (JArray [JNumber 1, JNumber 2, JNumber 3]))
   \<and> parseCoordinate Coord_spec (JNumber 1) = Err (UnmarshalCoordinate (JNumber 1))
   \<and> parseCoordinate Coord_spec (JArray [JString ''x'', JNumber 2])
       = Err (Recovered (CoercionFault (JString ''x'')))
   \<and> parseCoordinate Coord_spec (JArray [JNumber 1, JNull])
       = Err (Recovered (CoercionFault JNull))"
proof (intro conjI)
  show "parseCoordinate Coord_spec (JArray [JNumber 1.5, JNumber 2.5]) = Ok (1.5, 2.5)"
    using C3_parseCoordinate [of Coord_spec "JArray [JNumber 1.5, JNumber 2.5]" "(1.5, 2.5)"]
    by (simp add: Coord_spec_simps)
next
  show "parseCoordinate Coord_spec (JArray [JNumber 1, JNumber 2, JNumber 3])
       = Err (UnmarshalCoordinate (JArray [JNumber 1, JNumber 2, JNumber 3]))"
    using C3_parseCoordinate [of Coord_spec "JArray [JNumber 1, JNumber 2, JNumber 3]"]
    by simp
next
  show "parseCoordinate Coord_spec (JNumber 1) = Err (UnmarshalCoordinate (JNumber 1))"
    using C3_parseCoordinate [of Coord_spec "JNumber 1"] by simp
next
  show "parseCoordinate Coord_spec (JArray [JString ''x'', JNumber 2])
       = Err (Recovered (CoercionFault (JString ''x'')))"
    using C3_parseCoordinate [of Coord_spec "JArray [JString ''x'', JNumber 2]" _
        "CoercionFault (JString ''x'')" "JString ''x''" "JNumber 2"]
    by (simp add: Coord_spec_simps)
next
  show "parseCoordinate Coord_spec (JArray [JNumber 1, JNull])
       = Err (Recovered (CoercionFault JNull))"
    using C3_parseCoordinate [of Coord_spec "JArray [JNumber 1, JNull]" _
        "CoercionFault JNull" "JNumber 1" "JNull" 1]
    by (simp add: Coord_spec_simps)
qed

section \<open>Properties of the array loop\<close>

lemma range_fill_Ok:
  "i + length vs \<le> length coords \<Longrightarrow> map parse vs = map Ok xs \<Longrightarrow>
   range_fill parse vs i coords = Ok (take i coords @ xs @ drop (i + length vs) coords)"
proof (induction vs arbitrary: i coords xs)
  case Nil
  then show ?case by simp
next
  case (Cons v vs)
  from Cons.prems(2) obtain x xs' where xs: "xs = x # xs'" and v: "parse v = Ok x"
    and rest: "map parse vs = map Ok xs'"
    by (cases xs) auto
  from Cons.prems(1) have i: "i < length coords"
    and len: "Suc i + length vs \<le> length (coords[i := x])" by simp_all
  have "range_fill parse (v # vs) i coords = range_fill parse vs (Suc i) (coords[i := x])"
    by (simp add: v)
  also have "\<dots> = Ok (take (Suc i) (coords[i := x]) @ xs'
      @ drop (Suc i + length vs) (coords[i := x]))"
    by (rule Cons.IH [OF len rest])
  also have "take (Suc i) (coords[i := x]) = take i coords @ [x]"
    using i by (simp add: take_Suc_conv_app_nth)
  also have "drop (Suc i + length vs) (coords[i := x]) = drop (i + length (v # vs)) coords"
    by simp
  finally show ?case by (simp add: xs)
qed

lemma range_fill_all:
  assumes "map parse c = map Ok xs"
  shows "range_fill parse c 0 (replicate (length c) z) = Ok xs"
  using range_fill_Ok [of 0 c "replicate (length c) z" parse xs] assms by simp

lemma range_fill_OkD:
  "range_fill parse vs i coords = Ok ys \<Longrightarrow> \<exists>xs. map parse vs = map Ok xs"
proof (induction vs arbitrary: i coords)
  case Nil
  then show ?case by simp
next
  case (Cons v vs)
  from Cons.prems obtain x where v: "parse v = Ok x"
    and rest: "range_fill parse vs (Suc i) (coords[i := x]) = Ok ys"
    by (auto split: result.splits)
  from Cons.IH [OF rest] obtain xs where "map parse vs = map Ok xs" ..
  with v have "map parse (v # vs) = map Ok (x # xs)" by simp
  then show ?case ..
qed

lemma range_fill_all_iff:
  "range_fill parse c 0 (replicate (length c) z) = Ok xs \<longleftrightarrow> map parse c = map Ok xs"
proof
  assume r: "range_fill parse c 0 (replicate (length c) z) = Ok xs"
  then obtain ys where ys: "map parse c = map Ok ys" by (blast dest: range_fill_OkD)
  from range_fill_all [OF ys, of z] r have "ys = xs" by simp
  with ys show "map parse c = map Ok xs" by simp
next
  assume "map parse c = map Ok xs"
  then show "range_fill parse c 0 (replicate (length c) z) = Ok xs" by (rule range_fill_all)
qed

lemma range_fill_Err:
  "map parse pre = map Ok xs \<Longrightarrow> parse v = Err err \<Longrightarrow>
   range_fill parse (pre @ v # post) i coords = Err err"
proof (induction pre arbitrary: i coords xs)
  case Nil
  then show ?case by simp
next
  case (Cons u pre)
  from Cons.prems(1) obtain x xs' where u: "parse u = Ok x" and rest: "map parse pre = map Ok xs'"
    by (cases xs) auto
  show ?case using Cons.IH [OF rest Cons.prems(2)] by (simp add: u)
qed

lemma range_fill_Panic:
  "map parse pre = map Ok xs \<Longrightarrow> parse v = Panic e \<Longrightarrow>
   range_fill parse (pre @ v # post) i coords = Panic e"
proof (induction pre arbitrary: i coords xs)
  case Nil
  then show ?case by simp
next
  case (Cons u pre)
  from Cons.prems(1) obtain x xs' where u: "parse u = Ok x" and rest: "map parse pre = map Ok xs'"
    by (cases xs) auto
  show ?case using Cons.IH [OF rest Cons.prems(2)] by (simp add: u)
qed

lemma range_fill_no_panic:
  "(\<And>v e. parse v \<noteq> Panic e) \<Longrightarrow> range_fill parse vs i coords \<noteq> Panic e"
  by (induction vs arbitrary: i coords) (auto split: result.splits)

section \<open>Properties of the coordinate list codecs\<close>

lemma parseCoordinates_JArray:
  "c \<noteq> [] \<Longrightarrow> parseCoordinates Coord (JArray c) =
     range_fill (parseCoordinate Coord) c 0 (replicate (length c) (0, 0))"
  by (simp add: parseCoordinates_def as_slice_simps)

lemma parseCoordinates_reject:
  "(\<forall>c. obj \<noteq> JArray c) \<or> obj = JArray [] \<Longrightarrow>
   parseCoordinates Coord obj = Err (CoordinatesParseError obj)"
  by (cases obj) (auto simp: parseCoordinates_def as_slice_simps)

lemma parseCoordinates_Ok_iff:
  "parseCoordinates Coord obj = Ok cs \<longleftrightarrow>
     (\<exists>c. obj = JArray c \<and> c \<noteq> [] \<and> map (parseCoordinate Coord) c = map Ok cs)"
proof (cases "\<exists>c. obj = JArray c \<and> c \<noteq> []")
  case True
  then obtain c where "obj = JArray c" "c \<noteq> []" by blast
  then show ?thesis by (simp add: parseCoordinates_JArray range_fill_all_iff)
next
  case False
  then have "(\<forall>c. obj \<noteq> JArray c) \<or> obj = JArray []" by blast
  from parseCoordinates_reject [OF this] False show ?thesis by auto
qed

lemma parseCoordinates_no_panic: "parseCoordinates Coord obj \<noteq> Panic e"
  by (auto simp: parseCoordinates_def parseCoordinate_no_panic range_fill_no_panic
      split: option.splits)

lemma parseMultiLine_JArray:
  "c \<noteq> [] \<Longrightarrow> parseMultiLine Coord (JArray c) =
     range_fill (parseCoordinates Coord) c 0 (replicate (length c) [])"
  by (simp add: parseMultiLine_def as_slice_simps)

lemma parseMultiLine_reject:
  "(\<forall>c. obj \<noteq> JArray c) \<or> obj = JArray [] \<Longrightarrow>
   parseMultiLine Coord obj = Err (MultiLineParseError obj)"
  by (cases obj) (auto simp: parseMultiLine_def as_slice_simps)

lemma parseMultiLine_Ok_iff:
  "parseMultiLine Coord obj = Ok ml \<longleftrightarrow>
     (\<exists>c. obj = JArray c \<and> c \<noteq> [] \<and> map (parseCoordinates Coord) c = map Ok ml)"
proof (cases "\<exists>c. obj = JArray c \<and> c \<noteq> []")
  case True
  then obtain c where "obj = JArray c" "c \<noteq> []" by blast
  then show ?thesis by (simp add: parseMultiLine_JArray range_fill_all_iff)
next
  case False
  then have "(\<forall>c. obj \<noteq> JArray c) \<or> obj = JArray []" by blast
  from parseMultiLine_reject [OF this] False show ?thesis by auto
qed

lemma parseMultiLine_no_panic: "parseMultiLine Coord obj \<noteq> Panic e"
  by (auto simp: parseMultiLine_def parseCoordinates_no_panic range_fill_no_panic
      split: option.splits)

text \<open>
  Claim C4. \<^verbatim>\<open>parseCoordinates\<close> and \<^verbatim>\<open>parseMultiLine\<close> return a list exactly when the
  input is a non-empty array whose elements all decode at the next level down, and the list
  holds the decoded elements in order. When the elements before some element decode and
  that element returns an error, the decoder returns that very error (and, an error result
  carrying no list, nothing else). A value that is not an array, and the empty array, give
  the decoder's own error.
\<close>

theorem C4_list_codecs:
  "(parseCoordinates Coord obj = Ok cs \<longleftrightarrow>
      (\<exists>c. obj = JArray c \<and> c \<noteq> [] \<and> map (parseCoordinate Coord) c = map Ok cs))
   \<and> (parseMultiLine Coord obj = Ok ml \<longleftrightarrow>
      (\<exists>c. obj = JArray c \<and> c \<noteq> [] \<and> map (parseCoordinates Coord) c = map Ok ml))
   \<and> (obj = JArray (pre @ v # post) \<and> map (parseCoordinate Coord) pre = map Ok xs
        \<and> parseCoordinate Coord v = Err err \<longrightarrow> parseCoordinates Coord obj = Err err)
   \<and> (obj = JArray (pre @ v # post) \<and> map (parseCoordinates Coord) pre = map Ok ys
        \<and> parseCoordinates Coord v = Err err \<longrightarrow> parseMultiLine Coord obj = Err err)
   \<and> ((\<forall>c. obj \<noteq> JArray c) \<or> obj = JArray [] \<longrightarrow>
        parseCoordinates Coord obj = Err (CoordinatesParseError obj)
        \<and> parseMultiLine Coord obj = Err (MultiLineParseError obj))"
proof (intro conjI impI)
  show "parseCoordinates Coord obj = Ok cs \<longleftrightarrow>
      (\<exists>c. obj = JArray c \<and> c \<noteq> [] \<and> map (parseCoordinate Coord) c = map Ok cs)"
    by (rule parseCoordinates_Ok_iff)
next
  show "parseMultiLine Coord obj = Ok ml \<longleftrightarrow>
      (\<exists>c. obj = JArray c \<and> c \<noteq> [] \<and> map (parseCoordinates Coord) c = map Ok ml)"
    by (rule parseMultiLine_Ok_iff)
next
  assume "obj = JArray (pre @ v # post) \<and> map (parseCoordinate Coord) pre = map Ok xs
    \<and> parseCoordinate Coord v = Err err"
  then show "parseCoordinates Coord obj = Err err"
    by (simp add: parseCoordinates_JArray range_fill_Err)
next
  assume "obj = JArray (pre @ v # post) \<and> map (parseCoordinates Coord) pre = map Ok ys
    \<and> parseCoordinates Coord v = Err err"
  then show "parseMultiLine Coord obj = Err err"
    by (simp add: parseMultiLine_JArray range_fill_Err)
next
  assume "(\<forall>c. obj \<noteq> JArray c) \<or> obj = JArray []"
  then show "parseCoordinates Coord obj = Err (CoordinatesParseError obj)"
    by (rule parseCoordinates_reject)
next
  assume "(\<forall>c. obj \<noteq> JArray c) \<or> obj = JArray []"
  then show "parseMultiLine Coord obj = Err (MultiLineParseError obj)"
    by (rule parseMultiLine_reject)
qed

text \<open>
  The theorem at concrete arrays, with the coercion of the spec: two arrays that decode, an
  array whose second element is the first to fail at each level, the empty array and a value
  that is not an array.
\<close>

theorem C4_list_codecs_witness:
  "parseCoordinates Coord_spec (JArray [JArray [JNumber 0, JNumber 0], JArray [JNumber 1, JNumber 1]])
     = Ok [(0, 0), (1, 1)]
   \<and> parseMultiLine Coord_spec (JArray [JArray [JArray [JNumber 0, JNumber 0]]]) = Ok [[(0, 0)]]
   \<and> parseCoordinates Coord_spec (JArray [JArray [JNumber 0, JNumber 0], JNumber 7, JString ''x''])
     = Err (UnmarshalCoordinate (JNumber 7))
   \<and> parseMultiLine Coord_spec (JArray [JArray [JArray [JNumber 0, JNumber 0]], JArray [], JNull])
     = Err (CoordinatesParseError (JArray []))
   \<and> parseCoordinates Coord_spec (JArray []) = Err (CoordinatesParseError (JArray []))
   \<and> parseMultiLine Coord_spec JNull = Err (MultiLineParseError JNull)"
proof -
  have p0: "parseCoordinate Coord_spec (JArray [JNumber 0, JNumber 0]) = Ok (0, 0)"
    and p1: "parseCoordinate Coord_spec (JArray [JNumber 1, JNumber 1]) = Ok (1, 1)"
    by (simp_all add: parseCoordinate_pair Coord_spec_simps)
  have p7: "parseCoordinate Coord_spec (JNumber 7) = Err (UnmarshalCoordinate (JNumber 7))"
    by (simp add: parseCoordinate_other)
  have a: "parseCoordinates Coord_spec
      (JArray [JArray [JNumber 0, JNumber 0], JArray [JNumber 1, JNumber 1]]) = Ok [(0, 0), (1, 1)]"
    using C4_list_codecs [where Coord = Coord_spec and cs = "[(0, 0), (1, 1)]"
        and obj = "JArray [JArray [JNumber 0, JNumber 0], JArray [JNumber 1, JNumber 1]]"]
    by (simp add: p0 p1)
  have line: "parseCoordinates Coord_spec (JArray [JArray [JNumber 0, JNumber 0]]) = Ok [(0, 0)]"
    using C4_list_codecs [where Coord = Coord_spec and cs = "[(0, 0)]"
        and obj = "JArray [JArray [JNumber 0, JNumber 0]]"]
    by (simp add: p0)
  have b: "parseMultiLine Coord_spec (JArray [JArray [JArray [JNumber 0, JNumber 0]]]) = Ok [[(0, 0)]]"
    using C4_list_codecs [where Coord = Coord_spec and ml = "[[(0, 0)]]"
        and obj = "JArray [JArray [JArray [JNumber 0, JNumber 0]]]"]
    by (simp add: line)
  have c: "parseCoordinates Coord_spec
      (JArray [JArray [JNumber 0, JNumber 0], JNumber 7, JString ''x''])
      = Err (UnmarshalCoordinate (JNumber 7))"
    using C4_list_codecs [where Coord = Coord_spec
        and obj = "JArray [JArray [JNumber 0, JNumber 0], JNumber 7, JString ''x'']"
        and pre = "[JArray [JNumber 0, JNumber 0]]" and v = "JNumber 7"
        and post = "[JString ''x'']" and xs = "[(0, 0)]"
        and err = "UnmarshalCoordinate (JNumber 7)"]
    by (simp add: p0 p7)
  have e: "parseCoordinates Coord_spec (JArray []) = Err (CoordinatesParseError (JArray []))"
    using C4_list_codecs [where Coord = Coord_spec and obj = "JArray []"] by simp
  have d: "parseMultiLine Coord_spec
      (JArray [JArray [JArray [JNumber 0, JNumber 0]], JArray [], JNull])
      = Err (CoordinatesParseError (JArray []))"
    using C4_list_codecs [where Coord = Coord_spec
        and obj = "JArray [JArray [JArray [JNumber 0, JNumber 0]], JArray [], JNull]"
        and pre = "[JArray [JArray [JNumber 0, JNumber 0]]]" and v = "JArray []"
        and post = "[JNull]" and ys = "[[(0, 0)]]"
        and err = "CoordinatesParseError (JArray [])"]
    by (simp add: line e)
  have f: "parseMultiLine Coord_spec JNull = Err (MultiLineParseError JNull)"
    using C4_list_codecs [where Coord = Coord_spec and obj = JNull] by simp
  from a b c d e f show ?thesis by blast
qed

section \<open>Properties of the geometry decoder\<close>

lemma index_map_Cons:
  "index_map ((k', v) # g) k = (if k' = k then v else index_map g k)"
  by (simp add: index_map_def)

lemma index_map_Nil: "index_map [] k = JNull"
  by (simp add: index_map_def)

lemma parseGeometry_not_map:
  "\<forall>g. gi \<noteq> JObject g \<Longrightarrow> parseGeometry Coord gi = Panic (InterfaceConversion gi)"
  by (cases gi) (simp_all add: parseGeometry.simps)

text \<open>
  Panics of the numeric coercion are recovered in \<^verbatim>\<open>parseCoordinate\<close>, so a map tagged
  with any of the six coordinate shapes, or with no known tag, never panics, whatever its
  \<^verbatim>\<open>"coordinates"\<close> payload is.
\<close>

lemma parseMultiPolygon_no_panic: "parseMultiPolygon Coord obj \<noteq> Panic e"
proof (cases "as_slice obj")
  case None
  then show ?thesis by (simp add: parseMultiPolygon_def)
next
  case (Some si)
  have "range_fill (parseMultiLine Coord) si 0 (replicate (length si) []) \<noteq> Panic e"
    by (rule range_fill_no_panic) (rule parseMultiLine_no_panic)
  with Some show ?thesis by (auto simp: parseMultiPolygon_def split: result.splits)
qed

lemma parseGeometry_coordinates_no_panic:
  assumes "index_map g ''type'' \<noteq> JString ''GeometryCollection''"
  shows "parseGeometry Coord (JObject g) \<noteq> Panic e"
proof -
  let ?coord = "index_map g ''coordinates''"
  have "parsePoint Coord ?coord \<noteq> Panic e"
    using parseCoordinate_no_panic [of Coord ?coord]
    by (simp add: parsePoint_def split: result.splits)
  moreover have "parseLineString Coord ?coord \<noteq> Panic e"
    and "parseMultiPoint Coord ?coord \<noteq> Panic e"
    using parseCoordinates_no_panic [of Coord ?coord]
    by (simp_all add: parseLineString_def parseMultiPoint_def split: result.splits)
  moreover have "parseMultiLineString Coord ?coord \<noteq> Panic e"
    and "parsePolygon Coord ?coord \<noteq> Panic e"
    using parseMultiLine_no_panic [of Coord ?coord]
    by (simp_all add: parseMultiLineString_def parsePolygon_def split: result.splits)
  moreover note parseMultiPolygon_no_panic [of Coord ?coord e]
  ultimately show ?thesis using assms by (simp add: parseGeometry.simps Let_def)
qed

text \<open>
  Claim C5. For every map whose \<^verbatim>\<open>"type"\<close> field is none of the seven tag strings of the
  \<^verbatim>\<open>switch\<close> (the field is absent and reads as nil, or is not a string, or is another
  string), \<^verbatim>\<open>parseGeometry\<close> returns the unknown-geometry-type error formatted from the
  value of that field.
\<close>

theorem C5_unknown_type:
  "index_map g ''type'' \<notin> JString ` set [''Point'', ''LineString'', ''MultiPoint'',
      ''MultiLineString'', ''Polygon'', ''MultiPolygon'', ''GeometryCollection''] \<Longrightarrow>
   parseGeometry Coord (JObject g) = Err (UnknownGeometryType (index_map g ''type''))"
  by (simp add: parseGeometry.simps Let_def)

text \<open>
  The theorem at the map \<^verbatim>\<open>{"type":"Circle","coordinates":[0,0]}\<close>, whose error names
  \<^verbatim>\<open>Circle\<close>, at a map with no \<^verbatim>\<open>"type"\<close> field, and at one whose tag is a number.
\<close>

theorem C5_unknown_type_witness:
  "parseGeometry Coord_spec
     (JObject [(''type'', JString ''Circle''), (''coordinates'', JArray [JNumber 0, JNumber 0])])
     = Err (UnknownGeometryType (JString ''Circle''))
   \<and> parseGeometry Coord_spec (JObject [(''coordinates'', JArray [JNumber 0, JNumber 0])])
     = Err (UnknownGeometryType JNull)
   \<and> parseGeometry Coord_spec
        (JObject [(''type'', JNumber 5), (''coordinates'', JArray [JNumber 0, JNumber 0])])
     = Err (UnknownGeometryType (JNumber 5))"
  using
    C5_unknown_type [of "[(''type'', JString ''Circle''),
      (''coordinates'', JArray [JNumber 0, JNumber 0])]" Coord_spec]
    C5_unknown_type [of "[(''coordinates'', JArray [JNumber 0, JNumber 0])]" Coord_spec]
    C5_unknown_type [of "[(''type'', JNumber 5),
      (''coordinates'', JArray [JNumber 0, JNumber 0])]" Coord_spec]
  by (simp add: index_map_Cons index_map_Nil)

text \<open>
  Claim C8. Decoding the map \<^verbatim>\<open>{"type":"Point","coordinates":[1.5,2.5]}\<close> returns the
  point with coordinate \<open>(1.5, 2.5)\<close>, for every numeric coercion that converts the two
  numbers to themselves.
\<close>

theorem C8_point_example:
  "Coord (JNumber 1.5) = Inr 1.5 \<Longrightarrow> Coord (JNumber 2.5) = Inr 2.5 \<Longrightarrow>
   parseGeometry Coord
     (JObject [(''type'', JString ''Point''), (''coordinates'', JArray [JNumber 1.5, JNumber 2.5])])
   = Ok (Point (1.5, 2.5))"
  by (simp add: parseGeometry.simps index_map_Cons parsePoint_def parseCoordinate_pair)

text \<open>The theorem with the coercion of the spec.\<close>

theorem C8_point_example_witness:
  "parseGeometry Coord_spec
     (JObject [(''type'', JString ''Point''), (''coordinates'', JArray [JNumber 1.5, JNumber 2.5])])
   = Ok (Point (1.5, 2.5))"
  using C8_point_example [of Coord_spec] by (simp add: Coord_spec_simps)

text \<open>
  Claim C10. \<^verbatim>\<open>parseMultiPolygon\<close> accepts an empty array: decoding
  \<^verbatim>\<open>{"type":"MultiPolygon","coordinates":[]}\<close> returns a multi-polygon of zero polygons,
  while \<^verbatim>\<open>parseCoordinates\<close> and \<^verbatim>\<open>parseMultiLine\<close> reject the empty array.
\<close>

theorem C10_empty_multipolygon:
  "parseGeometry Coord (JObject [(''type'', JString ''MultiPolygon''), (''coordinates'', JArray [])])
     = Ok (MultiPolygon [])
   \<and> parseMultiPolygon Coord (JArray []) = Ok (MultiPolygon [])
   \<and> parseCoordinates Coord (JArray []) = Err (CoordinatesParseError (JArray []))
   \<and> parseMultiLine Coord (JArray []) = Err (MultiLineParseError (JArray []))"
  by (simp add: parseGeometry.simps index_map_Cons parseMultiPolygon_def parseCoordinates_def
      parseMultiLine_def as_slice_simps)

text \<open>
  Claim C1 says that a top-level decode of any malformed value returns an error and lets no
  panic escape. The decoder does otherwise on a value that is not a map: the unchecked type
  assertion of \<^verbatim>\<open>parseGeometry\<close> panics outside any \<^verbatim>\<open>recover\<close>, at top level (a
  string, a bare coordinate array), through \<^verbatim>\<open>Feature.GetGeometry\<close>, and from inside a
  geometry collection whose element is not a map.
\<close>

theorem C1_panic_escapes:
  "parseGeometry Coord (JString ''Point'') = Panic (InterfaceConversion (JString ''Point''))
   \<and> parseGeometry Coord (JArray [JNumber 0, JNumber 0])
       = Panic (InterfaceConversion (JArray [JNumber 0, JNumber 0]))
   \<and> GetGeometry Coord (t\<lparr>Geometry := JNumber 5\<rparr>) = Panic (InterfaceConversion (JNumber 5))
   \<and> parseGeometry Coord
       (JObject [(''type'', JString ''GeometryCollection''), (''geometries'', JArray [JNumber 5])])
       = Panic (InterfaceConversion (JNumber 5))"
  by (simp add: GetGeometry_def parseGeometry.simps parseGeometryCollection.simps
      parseGeometryCollection_loop.simps index_map_Cons as_slice_simps)

text \<open>
  Claim C2 says that \<^verbatim>\<open>Feature.GetGeometry\<close> on a feature whose raw geometry is JSON null
  returns neither a geometry nor an error. The decoder does otherwise: the nil value is not
  a map, and the call panics.
\<close>

theorem C2_null_geometry_panics:
  "GetGeometry Coord (t\<lparr>Geometry := JNull\<rparr>) = Panic (InterfaceConversion JNull)"
  by (simp add: GetGeometry_def parseGeometry.simps)

section \<open>Properties of feature collections\<close>

text \<open>
  Claim C9. \<^verbatim>\<open>AddFeatures\<close> called with no argument on a collection whose
  \<^verbatim>\<open>Features\<close> slice is nil (any such collection, and the one \<^verbatim>\<open>NewFeatureCollection\<close>
  builds from a nil slice) leaves \<^verbatim>\<open>Features\<close> an allocated slice of length 0.
\<close>

theorem C9_add_no_features:
  "Features (AddFeatures (t\<lparr>Features := None\<rparr>) None) = Some []
   \<and> Features (AddFeatures (NewFeatureCollection None) None) = Some []
   \<and> length (the (Features (AddFeatures (t\<lparr>Features := None\<rparr>) None))) = 0"
  by (simp add: AddFeatures_def append_slice_def NewFeatureCollection_def)

section \<open>Properties of the collection decoder\<close>

lemma loop_done:
  "length si \<le> i \<Longrightarrow> parseGeometryCollection_loop Coord si i geometries = Ok geometries"
  by (simp add: parseGeometryCollection_loop.simps)

lemma loop_step:
  "i < length si \<Longrightarrow> parseGeometry Coord (si ! i) = Ok geometry \<Longrightarrow>
   parseGeometryCollection_loop Coord si i geometries =
     parseGeometryCollection_loop Coord si (Suc i) (geometries @ [geometry])"
  by (subst parseGeometryCollection_loop.simps) simp

lemma loop_Ok:
  "map (parseGeometry Coord) (drop i si) = map Ok gs \<Longrightarrow>
   parseGeometryCollection_loop Coord si i geometries = Ok (geometries @ gs)"
proof (induction gs arbitrary: i geometries)
  case Nil
  then have "length si \<le> i" by simp
  then show ?case by (simp add: loop_done)
next
  case (Cons g gs)
  from Cons.prems have i: "i < length si"
    by (cases "i < length si") auto
  then have split: "drop i si = si ! i # drop (Suc i) si"
    by (simp add: Cons_nth_drop_Suc)
  from Cons.prems split have g: "parseGeometry Coord (si ! i) = Ok g"
    and rest: "map (parseGeometry Coord) (drop (Suc i) si) = map Ok gs"
    by simp_all
  show ?case using Cons.IH [OF rest, of "geometries @ [g]"] by (simp add: loop_step [OF i g])
qed

lemma loop_first_failure:
  assumes "map (parseGeometry Coord) pre = map Ok gs"
    and "i \<le> length pre"
  shows "parseGeometryCollection_loop Coord (pre @ v # post) i geometries =
     (case parseGeometry Coord v of
        Ok g \<Rightarrow> parseGeometryCollection_loop Coord (pre @ v # post) (Suc (length pre))
                  (geometries @ drop i gs @ [g])
      | Err err \<Rightarrow> Err err
      | Panic e \<Rightarrow> Panic e)"
  using assms(2)
proof (induction "length pre - i" arbitrary: i geometries)
  case 0
  then have i: "i = length pre" by simp
  have len: "length gs = length pre" using assms(1) by (metis length_map)
  show ?case
    by (subst parseGeometryCollection_loop.simps) (simp add: i len split: result.splits)
next
  case (Suc n)
  then have i: "i < length pre" by simp
  have len: "length gs = length pre" using assms(1) by (metis length_map)
  have "parseGeometry Coord (pre ! i) = Ok (gs ! i)"
    using assms(1) i len by (metis nth_map)
  then have step: "parseGeometry Coord ((pre @ v # post) ! i) = Ok (gs ! i)"
    using i by (simp add: nth_append)
  have n: "n = length pre - Suc i" using Suc.hyps(2) by simp
  have "drop i gs = gs ! i # drop (Suc i) gs"
    using i len by (simp add: Cons_nth_drop_Suc)
  then show ?case
    using Suc.hyps(1) [OF n, of "geometries @ [gs ! i]"] i
    by (simp add: loop_step [OF _ step] split: result.splits)
qed

lemma parseGeometry_collection:
  "index_map g ''type'' = JString ''GeometryCollection'' \<Longrightarrow>
   parseGeometry Coord (JObject g) = parseGeometryCollection Coord (index_map g ''geometries'')"
  by (simp add: parseGeometry.simps Let_def)

lemma parseGeometryCollection_Ok:
  "map (parseGeometry Coord) si = map Ok gs \<Longrightarrow>
   parseGeometryCollection Coord (JArray si) = Ok (GeometryCollection gs)"
  using loop_Ok [of Coord 0 si gs "[]"]
  by (simp add: parseGeometryCollection.simps as_slice_simps)

lemma parseGeometryCollection_Err:
  "map (parseGeometry Coord) pre = map Ok gs \<Longrightarrow> parseGeometry Coord v = Err err \<Longrightarrow>
   parseGeometryCollection Coord (JArray (pre @ v # post)) = Err err"
  using loop_first_failure [of Coord pre gs 0 v post "[]"]
  by (simp add: parseGeometryCollection.simps as_slice_simps)

lemma parseGeometryCollection_Panic:
  "map (parseGeometry Coord) pre = map Ok gs \<Longrightarrow> parseGeometry Coord v = Panic e \<Longrightarrow>
   parseGeometryCollection Coord (JArray (pre @ v # post)) = Panic e"
  using loop_first_failure [of Coord pre gs 0 v post "[]"]
  by (simp add: parseGeometryCollection.simps as_slice_simps)

lemma parseGeometryCollection_reject:
  "\<forall>si. obj \<noteq> JArray si \<Longrightarrow> parseGeometryCollection Coord obj = Err GeometryCollectionParseError"
  by (cases obj) (simp_all add: parseGeometryCollection.simps as_slice_simps)

lemma loop_OkD:
  "parseGeometryCollection_loop Coord si i geometries = Ok res \<Longrightarrow>
   \<exists>gs. res = geometries @ gs \<and> map (parseGeometry Coord) (drop i si) = map Ok gs"
proof (induction "length si - i" arbitrary: i geometries)
  case 0
  then have "length si \<le> i" by simp
  with "0.prems" show ?case by (simp add: loop_done)
next
  case (Suc n)
  then have i: "i < length si" by simp
  from Suc.prems i obtain g where g: "parseGeometry Coord (si ! i) = Ok g"
    and rest: "parseGeometryCollection_loop Coord si (Suc i) (geometries @ [g]) = Ok res"
    by (subst (asm) parseGeometryCollection_loop.simps) (auto split: result.splits)
  have n: "n = length si - Suc i" using Suc.hyps(2) by simp
  from Suc.hyps(1) [OF n rest] obtain gs where res: "res = (geometries @ [g]) @ gs"
    and tl: "map (parseGeometry Coord) (drop (Suc i) si) = map Ok gs"
    by blast
  have "drop i si = si ! i # drop (Suc i) si" using i by (simp add: Cons_nth_drop_Suc)
  with g tl have "map (parseGeometry Coord) (drop i si) = map Ok (g # gs)" by simp
  moreover from res have "res = geometries @ g # gs" by simp
  ultimately show ?case by blast
qed

lemma parseGeometryCollection_OkD:
  assumes "parseGeometryCollection Coord obj = Ok geom"
  shows "\<exists>si gs. obj = JArray si \<and> geom = GeometryCollection gs
      \<and> map (parseGeometry Coord) si = map Ok gs"
proof (cases "as_slice obj")
  case None
  with assms show ?thesis by (simp add: parseGeometryCollection.simps)
next
  case (Some si)
  then have obj: "obj = JArray si" by (rule as_slice_Some)
  from assms Some obtain gs where loop: "parseGeometryCollection_loop Coord si 0 [] = Ok gs"
    and geom: "geom = GeometryCollection gs"
    by (auto simp: parseGeometryCollection.simps split: result.splits)
  from loop_OkD [OF loop] have "map (parseGeometry Coord) si = map Ok gs" by simp
  with obj geom show ?thesis by blast
qed

text \<open>
  Claim C6. Decoding a map tagged \<^verbatim>\<open>GeometryCollection\<close> runs the geometry decoder on
  the elements of its \<^verbatim>\<open>"geometries"\<close> array from first to last. When every element
  decodes, the result is the collection of the elements' geometries in the order of the
  array; and a geometry is returned only then: the \<^verbatim>\<open>"geometries"\<close> field is an array,
  every element of it decodes, and the result is the collection of exactly those geometries,
  so no partial collection is ever returned. When the elements before some element decode
  and that element returns an error, the whole decode returns that very error; when that
  element panics instead (it is not a map), the whole decode panics with the same value.
  When the \<^verbatim>\<open>"geometries"\<close> field is not an array (or is absent), the decode returns the
  collection's own error.
\<close>

theorem C6_geometry_collection:
  "(index_map g ''type'' = JString ''GeometryCollection''
      \<and> index_map g ''geometries'' = JArray si
      \<and> map (parseGeometry Coord) si = map Ok gs \<longrightarrow>
    parseGeometry Coord (JObject g) = Ok (GeometryCollection gs))
   \<and> (index_map g ''type'' = JString ''GeometryCollection''
      \<and> parseGeometry Coord (JObject g) = Ok geom \<longrightarrow>
    (\<exists>si' gs'. index_map g ''geometries'' = JArray si' \<and> geom = GeometryCollection gs'
      \<and> map (parseGeometry Coord) si' = map Ok gs'))
   \<and> (index_map g ''type'' = JString ''GeometryCollection''
      \<and> index_map g ''geometries'' = JArray (pre @ v # post)
      \<and> map (parseGeometry Coord) pre = map Ok gs
      \<and> parseGeometry Coord v = Err err \<longrightarrow>
    parseGeometry Coord (JObject g) = Err err)
   \<and> (index_map g ''type'' = JString ''GeometryCollection''
      \<and> index_map g ''geometries'' = JArray (pre @ v # post)
      \<and> map (parseGeometry Coord) pre = map Ok gs
      \<and> parseGeometry Coord v = Panic e \<longrightarrow>
    parseGeometry Coord (JObject g) = Panic e)
   \<and> (index_map g ''type'' = JString ''GeometryCollection''
      \<and> (\<forall>si. index_map g ''geometries'' \<noteq> JArray si) \<longrightarrow>
    parseGeometry Coord (JObject g) = Err GeometryCollectionParseError)"
proof (intro conjI impI)
  assume "index_map g ''type'' = JString ''GeometryCollection''
      \<and> index_map g ''geometries'' = JArray si
      \<and> map (parseGeometry Coord) si = map Ok gs"
  then show "parseGeometry Coord (JObject g) = Ok (GeometryCollection gs)"
    by (simp add: parseGeometry_collection parseGeometryCollection_Ok)
next
  assume "index_map g ''type'' = JString ''GeometryCollection''
      \<and> parseGeometry Coord (JObject g) = Ok geom"
  then have "parseGeometryCollection Coord (index_map g ''geometries'') = Ok geom"
    using parseGeometry_collection [of g Coord] by auto
  then show "\<exists>si' gs'. index_map g ''geometries'' = JArray si' \<and> geom = GeometryCollection gs'
      \<and> map (parseGeometry Coord) si' = map Ok gs'"
    by (rule parseGeometryCollection_OkD)
next
  assume "index_map g ''type'' = JString ''GeometryCollection''
      \<and> index_map g ''geometries'' = JArray (pre @ v # post)
      \<and> map (parseGeometry Coord) pre = map Ok gs
      \<and> parseGeometry Coord v = Err err"
  then show "parseGeometry Coord (JObject g) = Err err"
    by (simp add: parseGeometry_collection parseGeometryCollection_Err)
next
  assume "index_map g ''type'' = JString ''GeometryCollection''
      \<and> index_map g ''geometries'' = JArray (pre @ v # post)
      \<and> map (parseGeometry Coord) pre = map Ok gs
      \<and> parseGeometry Coord v = Panic e"
  then show "parseGeometry Coord (JObject g) = Panic e"
    by (simp add: parseGeometry_collection parseGeometryCollection_Panic)
next
  assume "index_map g ''type'' = JString ''GeometryCollection''
      \<and> (\<forall>si. index_map g ''geometries'' \<noteq> JArray si)"
  then show "parseGeometry Coord (JObject g) = Err GeometryCollectionParseError"
    by (simp add: parseGeometry_collection parseGeometryCollection_reject)
qed

lemma parseGeometry_Point:
  "Coord (JNumber x) = Inr x \<Longrightarrow> Coord (JNumber y) = Inr y \<Longrightarrow>
   parseGeometry Coord
     (JObject [(''type'', JString ''Point''), (''coordinates'', JArray [JNumber x, JNumber y])])
   = Ok (Point (x, y))"
  by (simp add: parseGeometry.simps index_map_Cons parsePoint_def parseCoordinate_pair)

text \<open>
  The theorem at concrete maps, with the coercion of the spec: the collection of a point and
  a line string of the spec's example, which decodes to exactly these two in that order; a
  collection whose second element has an unknown tag; a collection whose second element is a
  number; and collections whose \<^verbatim>\<open>"geometries"\<close> field is a string or is absent.
\<close>

theorem C6_geometry_collection_witness:
  "parseGeometry Coord_spec
     (JObject [(''type'', JString ''GeometryCollection''),
        (''geometries'', JArray [
           JObject [(''type'', JString ''Point''), (''coordinates'', JArray [JNumber 0, JNumber 0])],
           JObject [(''type'', JString ''LineString''),
             (''coordinates'', JArray [JArray [JNumber 0, JNumber 0], JArray [JNumber 1, JNumber 1]])]])])
     = Ok (GeometryCollection [Point (0, 0), LineString [(0, 0), (1, 1)]])
   \<and> (\<exists>si' gs'.
        index_map [(''type'', JString ''GeometryCollection''),
          (''geometries'', JArray [
             JObject [(''type'', JString ''Point''), (''coordinates'', JArray [JNumber 0, JNumber 0])],
             JObject [(''type'', JString ''LineString''),
               (''coordinates'', JArray [JArray [JNumber 0, JNumber 0], JArray [JNumber 1, JNumber 1]])]])]
          ''geometries'' = JArray si'
        \<and> GeometryCollection [Point (0, 0), LineString [(0, 0), (1, 1)]] = GeometryCollection gs'
        \<and> map (parseGeometry Coord_spec) si' = map Ok gs')
   \<and> parseGeometry Coord_spec
     (JObject [(''type'', JString ''GeometryCollection''),
        (''geometries'', JArray [
           JObject [(''type'', JString ''Point''), (''coordinates'', JArray [JNumber 0, JNumber 0])],
           JObject [(''type'', JString ''Circle'')],
           JObject [(''type'', JString ''Point''), (''coordinates'', JNull)]])])
     = Err (UnknownGeometryType (JString ''Circle''))
   \<and> parseGeometry Coord_spec
     (JObject [(''type'', JString ''GeometryCollection''),
        (''geometries'', JArray [
           JObject [(''type'', JString ''Point''), (''coordinates'', JArray [JNumber 0, JNumber 0])],
           JNumber 5,
           JObject [(''type'', JString ''Circle'')]])])
     = Panic (InterfaceConversion (JNumber 5))
   \<and> parseGeometry Coord_spec
     (JObject [(''type'', JString ''GeometryCollection''), (''geometries'', JString ''none'')])
     = Err GeometryCollectionParseError
   \<and> parseGeometry Coord_spec (JObject [(''type'', JString ''GeometryCollection'')])
     = Err GeometryCollectionParseError"
proof -
  let ?point = "JObject [(''type'', JString ''Point''), (''coordinates'', JArray [JNumber 0, JNumber 0])]"
  let ?line = "JObject [(''type'', JString ''LineString''),
      (''coordinates'', JArray [JArray [JNumber 0, JNumber 0], JArray [JNumber 1, JNumber 1]])]"
  let ?circle = "JObject [(''type'', JString ''Circle'')]"
  let ?bad = "JObject [(''type'', JString ''Point''), (''coordinates'', JNull)]"
  let ?example = "[(''type'', JString ''GeometryCollection''), (''geometries'', JArray [?point, ?line])]"
  have point: "parseGeometry Coord_spec ?point = Ok (Point (0, 0))"
    by (simp add: parseGeometry_Point Coord_spec_simps)
  have "parseCoordinates Coord_spec (JArray [JArray [JNumber 0, JNumber 0], JArray [JNumber 1, JNumber 1]])
      = Ok [(0, 0), (1, 1)]"
    by (simp add: parseCoordinates_Ok_iff parseCoordinate_pair Coord_spec_simps)
  then have line: "parseGeometry Coord_spec ?line = Ok (LineString [(0, 0), (1, 1)])"
    by (simp add: parseGeometry.simps index_map_Cons parseLineString_def)
  have circle: "parseGeometry Coord_spec ?circle = Err (UnknownGeometryType (JString ''Circle''))"
    by (simp add: parseGeometry.simps index_map_Cons index_map_Nil)
  have five: "parseGeometry Coord_spec (JNumber 5) = Panic (InterfaceConversion (JNumber 5))"
    by (simp add: parseGeometry_not_map)
  have a: "parseGeometry Coord_spec (JObject ?example)
      = Ok (GeometryCollection [Point (0, 0), LineString [(0, 0), (1, 1)]])"
    using C6_geometry_collection [where Coord = Coord_spec and g = ?example
        and si = "[?point, ?line]" and gs = "[Point (0, 0), LineString [(0, 0), (1, 1)]]"]
      point line
    by (simp add: index_map_Cons)
  have a': "\<exists>si' gs'. index_map ?example ''geometries'' = JArray si'
        \<and> GeometryCollection [Point (0, 0), LineString [(0, 0), (1, 1)]] = GeometryCollection gs'
        \<and> map (parseGeometry Coord_spec) si' = map Ok gs'"
  proof -
    have tag: "index_map ?example ''type'' = JString ''GeometryCollection''"
      by (simp add: index_map_Cons)
    from C6_geometry_collection [where Coord = Coord_spec and g = ?example
        and geom = "GeometryCollection [Point (0, 0), LineString [(0, 0), (1, 1)]]"]
    have "index_map ?example ''type'' = JString ''GeometryCollection''
        \<and> parseGeometry Coord_spec (JObject ?example)
          = Ok (GeometryCollection [Point (0, 0), LineString [(0, 0), (1, 1)]]) \<longrightarrow>
      (\<exists>si' gs'. index_map ?example ''geometries'' = JArray si'
        \<and> GeometryCollection [Point (0, 0), LineString [(0, 0), (1, 1)]] = GeometryCollection gs'
        \<and> map (parseGeometry Coord_spec) si' = map Ok gs')"
      by blast
    with tag a show ?thesis by blast
  qed
  have b: "parseGeometry Coord_spec
      (JObject [(''type'', JString ''GeometryCollection''),
        (''geometries'', JArray [?point, ?circle, ?bad])])
      = Err (UnknownGeometryType (JString ''Circle''))"
    using C6_geometry_collection [where Coord = Coord_spec
        and g = "[(''type'', JString ''GeometryCollection''),
          (''geometries'', JArray [?point, ?circle, ?bad])]"
        and pre = "[?point]" and v = ?circle and post = "[?bad]" and gs = "[Point (0, 0)]"
        and err = "UnknownGeometryType (JString ''Circle'')"]
      point circle
    by (simp add: index_map_Cons)
  have p: "parseGeometry Coord_spec
      (JObject [(''type'', JString ''GeometryCollection''),
        (''geometries'', JArray [?point, JNumber 5, ?circle])])
      = Panic (InterfaceConversion (JNumber 5))"
    using C6_geometry_collection [where Coord = Coord_spec
        and g = "[(''type'', JString ''GeometryCollection''),
          (''geometries'', JArray [?point, JNumber 5, ?circle])]"
        and pre = "[?point]" and v = "JNumber 5" and post = "[?circle]" and gs = "[Point (0, 0)]"
        and e = "InterfaceConversion (JNumber 5)"]
      point five
    by (simp add: index_map_Cons)
  have c: "parseGeometry Coord_spec
      (JObject [(''type'', JString ''GeometryCollection''), (''geometries'', JString ''none'')])
      = Err GeometryCollectionParseError"
    using C6_geometry_collection [where Coord = Coord_spec
        and g = "[(''type'', JString ''GeometryCollection''), (''geometries'', JString ''none'')]"]
    by (simp add: index_map_Cons)
  have d: "parseGeometry Coord_spec (JObject [(''type'', JString ''GeometryCollection'')])
      = Err GeometryCollectionParseError"
    using C6_geometry_collection [where Coord = Coord_spec
        and g = "[(''type'', JString ''GeometryCollection'')]"]
    by (simp add: index_map_Cons index_map_Nil)
  from a a' b p c d show ?thesis by blast
qed

section \<open>Round trip\<close>

lemma decode_encodeCoordinate:
  "\<forall>x. Coord (JNumber x) = Inr x \<Longrightarrow> parseCoordinate Coord (encodeCoordinate c) = Ok c"
  by (simp add: encodeCoordinate_def parseCoordinate_pair)

lemma decode_encodeCoordinates:
  assumes "\<forall>x. Coord (JNumber x) = Inr x" and "valid_Coordinates cc"
  shows "parseCoordinates Coord (encodeCoordinates cc) = Ok cc"
proof -
  have "map (parseCoordinate Coord) (map encodeCoordinate cc) = map Ok cc"
    using assms(1) by (simp add: decode_encodeCoordinate)
  with assms(2) show ?thesis
    by (simp add: parseCoordinates_Ok_iff encodeCoordinates_def valid_Coordinates_def)
qed

lemma decode_encodeMultiLine:
  assumes "\<forall>x. Coord (JNumber x) = Inr x" and "valid_MultiLine ml"
  shows "parseMultiLine Coord (encodeMultiLine ml) = Ok ml"
proof -
  have "map (parseCoordinates Coord) (map encodeCoordinates ml) = map Ok ml"
    using assms by (simp add: decode_encodeCoordinates valid_MultiLine_def list_all_iff)
  with assms(2) show ?thesis
    by (simp add: parseMultiLine_Ok_iff encodeMultiLine_def valid_MultiLine_def)
qed

lemma decode_encodeMultiPolygon:
  assumes "\<forall>x. Coord (JNumber x) = Inr x" and "list_all valid_MultiLine mls"
  shows "parseMultiPolygon Coord (JArray (map encodeMultiLine mls)) = Ok (MultiPolygon mls)"
proof -
  have "map (parseMultiLine Coord) (map encodeMultiLine mls) = map Ok mls"
    using assms by (simp add: decode_encodeMultiLine list_all_iff)
  from range_fill_all [OF this, of "[]"] show ?thesis
    by (simp add: parseMultiPolygon_def as_slice_simps)
qed

text \<open>
  Claim C7. For every valid geometry of any of the seven variants, collections nested to any
  depth included, decoding its encoding returns the geometry itself, for every numeric
  coercion that converts a number to itself.
\<close>

theorem C7_round_trip:
  "\<forall>x. Coord (JNumber x) = Inr x \<Longrightarrow> valid_Geometry g \<Longrightarrow>
   parseGeometry Coord (encodeGeometry g) = Ok g"
proof (induction g)
  case (Point c)
  then show ?case
    by (simp add: parseGeometry.simps index_map_Cons parsePoint_def decode_encodeCoordinate)
next
  case (LineString cc)
  then show ?case
    by (simp add: parseGeometry.simps index_map_Cons parseLineString_def decode_encodeCoordinates)
next
  case (MultiPoint cc)
  then show ?case
    by (simp add: parseGeometry.simps index_map_Cons parseMultiPoint_def decode_encodeCoordinates)
next
  case (MultiLineString ml)
  then show ?case
    by (simp add: parseGeometry.simps index_map_Cons parseMultiLineString_def
        decode_encodeMultiLine)
next
  case (Polygon pl)
  then show ?case
    by (simp add: parseGeometry.simps index_map_Cons parsePolygon_def decode_encodeMultiLine)
next
  case (MultiPolygon mls)
  then show ?case
    by (simp add: parseGeometry.simps index_map_Cons decode_encodeMultiPolygon)
next
  case (GeometryCollection gs)
  then have "map (parseGeometry Coord) (map encodeGeometry gs) = map Ok gs"
    by (simp add: list_all_iff)
  then have "parseGeometryCollection Coord (JArray (map encodeGeometry gs))
      = Ok (GeometryCollection gs)"
    by (rule parseGeometryCollection_Ok)
  then show ?case by (simp add: parseGeometry.simps index_map_Cons)
qed

text \<open>
  The theorem with the coercion of the spec, at a collection nested three levels deep that
  holds all seven variants.
\<close>

theorem C7_round_trip_witness:
  "valid_Geometry
     (GeometryCollection [Point (1.5, 2.5),
        GeometryCollection [LineString [(0, 0), (1, 1)], MultiPoint [(0, 0)],
          GeometryCollection [MultiLineString [[(0, 0), (1, 1)]],
            Polygon [[(0, 0), (1, 0), (1, 1), (0, 0)]],
            MultiPolygon [[[(0, 0), (1, 0), (1, 1), (0, 0)]]]]]])
   \<and> parseGeometry Coord_spec (encodeGeometry
     (GeometryCollection [Point (1.5, 2.5),
        GeometryCollection [LineString [(0, 0), (1, 1)], MultiPoint [(0, 0)],
          GeometryCollection [MultiLineString [[(0, 0), (1, 1)]],
            Polygon [[(0, 0), (1, 0), (1, 1), (0, 0)]],
            MultiPolygon [[[(0, 0), (1, 0), (1, 1), (0, 0)]]]]]]))
     = Ok (GeometryCollection [Point (1.5, 2.5),
        GeometryCollection [LineString [(0, 0), (1, 1)], MultiPoint [(0, 0)],
          GeometryCollection [MultiLineString [[(0, 0), (1, 1)]],
            Polygon [[(0, 0), (1, 0), (1, 1), (0, 0)]],
            MultiPolygon [[[(0, 0), (1, 0), (1, 1), (0, 0)]]]]]])"
proof -
  let ?g = "GeometryCollection [Point (1.5, 2.5),
        GeometryCollection [LineString [(0, 0), (1, 1)], MultiPoint [(0, 0)],
          GeometryCollection [MultiLineString [[(0, 0), (1, 1)]],
            Polygon [[(0, 0), (1, 0), (1, 1), (0, 0)]],
            MultiPolygon [[[(0, 0), (1, 0), (1, 1), (0, 0)]]]]]]"
  have num: "\<forall>x. Coord_spec (JNumber x) = Inr x" by (simp add: Coord_spec_simps)
  have valid: "valid_Geometry ?g" by (simp add: valid_Coordinates_def valid_MultiLine_def)
  from C7_round_trip [OF num valid] valid show ?thesis by blast
qed

end
